theory Spec2Isabelle
  imports Complex_Main "HOL-Library.AList"
begin

section \<open>Job-market dashboards: tables, filters and aggregates\<close>

text \<open>
  The two scripts (\<^verbatim>\<open>app.py\<close>, the USA dashboard, and
  \<^verbatim>\<open>app_comparison-checkpoint.py\<close>, the USA/India comparison) work on pandas
  data frames. A data frame is modelled as its list of column names together with its
  list of rows, in table order. A cell that pandas holds as NaN (a missing value) is
  \<open>None\<close>. Numeric cells are modelled as real numbers, and the arithmetic of
  the filters, the medians and the percentages as exact. The currency conversion is
  the one place where a claim depends on the rounding of double-precision arithmetic;
  there the rounding is modelled.
\<close>

subsection \<open>Data model\<close>

record job =
  job_category :: string
  seniority :: string
  state :: "string option"
  avg_salary_k :: "real option"
  avg_salary_usd :: "real option"
  avg_salary_lpa :: "real option"
  skill :: "string \<Rightarrow> bool"

record dataframe =
  columns :: "string list"
  rows :: "job list"

definition len :: "dataframe \<Rightarrow> nat" where
  "len df = length (rows df)"

text \<open>Boolean-mask indexing \<^verbatim>\<open>df[mask]\<close>: the rows whose mask entry is true, in order.\<close>

definition df_select :: "(job \<Rightarrow> bool) \<Rightarrow> dataframe \<Rightarrow> dataframe" where
  "df_select p df = df\<lparr>rows := filter p (rows df)\<rparr>"

text \<open>\<^verbatim>\<open>Series.between(left, right)\<close>: both ends inclusive, false on NaN.\<close>

definition between :: "real option \<Rightarrow> int \<Rightarrow> int \<Rightarrow> bool" where
  "between v left right =
     (case v of None \<Rightarrow> False | Some x \<Rightarrow> of_int left \<le> x \<and> x \<le> of_int right)"

text \<open>\<^verbatim>\<open>Series == value\<close> on a string column that may hold NaN: false on NaN.\<close>

definition eq_str :: "string option \<Rightarrow> string \<Rightarrow> bool" where
  "eq_str v s = (case v of None \<Rightarrow> False | Some x \<Rightarrow> x = s)"

subsection \<open>Filter engine of \<^verbatim>\<open>app.py\<close> (lines 69-76)\<close>

definition filtered_df :: "dataframe \<Rightarrow> int \<times> int \<Rightarrow> string \<Rightarrow> string \<Rightarrow> dataframe" where
  "filtered_df df salary_range selected_seniority selected_state =
     (let f0 = df_select (\<lambda>r. between (avg_salary_k r) (fst salary_range) (snd salary_range)) df;
          f1 = (if selected_seniority \<noteq> ''All''
                then df_select (\<lambda>r. seniority r = selected_seniority) f0 else f0);
          f2 = (if selected_state \<noteq> ''All''
                then df_select (\<lambda>r. eq_str (state r) selected_state) f1 else f1)
      in f2)"

subsection \<open>Filter engine of the comparison script (\<^verbatim>\<open>filter_data\<close>, lines 67-71)\<close>

definition filter_data :: "dataframe \<Rightarrow> string list \<Rightarrow> string \<Rightarrow> dataframe" where
  "filter_data df categories seniority_option =
     (let filtered = df_select (\<lambda>r. job_category r \<in> set categories) df
      in if seniority_option \<noteq> ''All''
         then df_select (\<lambda>r. seniority r = seniority_option) filtered
         else filtered)"

text \<open>
  Every interaction re-executes the script on the cached table: a session is the list of
  views computed, one per selection, each from the same loaded table.
\<close>

definition rerun_app :: "dataframe \<Rightarrow> ((int \<times> int) \<times> string \<times> string) list \<Rightarrow> dataframe list" where
  "rerun_app df sels = map (\<lambda>(rng, sen, st). filtered_df df rng sen st) sels"

definition rerun_comparison :: "dataframe \<Rightarrow> (string list \<times> string) list \<Rightarrow> dataframe list" where
  "rerun_comparison df sels = map (\<lambda>(cats, sen). filter_data df cats sen) sels"

subsection \<open>Data loader of \<^verbatim>\<open>app.py\<close> (\<^verbatim>\<open>load_data\<close>, lines 14-38)\<close>

definition state_mapping :: "(string \<times> string) list" where
  "state_mapping =
    [(''AL'', ''Alabama''), (''AK'', ''Alaska''), (''AZ'', ''Arizona''), (''AR'', ''Arkansas''),
     (''CA'', ''California''), (''CO'', ''Colorado''), (''CT'', ''Connecticut''), (''DE'', ''Delaware''),
     (''FL'', ''Florida''), (''GA'', ''Georgia''), (''HI'', ''Hawaii''), (''ID'', ''Idaho''),
     (''IL'', ''Illinois''), (''IN'', ''Indiana''), (''IA'', ''Iowa''), (''KS'', ''Kansas''),
     (''KY'', ''Kentucky''), (''LA'', ''Louisiana''), (''ME'', ''Maine''), (''MD'', ''Maryland''),
     (''MA'', ''Massachusetts''), (''MI'', ''Michigan''), (''MN'', ''Minnesota''), (''MS'', ''Mississippi''),
     (''MO'', ''Missouri''), (''MT'', ''Montana''), (''NE'', ''Nebraska''), (''NV'', ''Nevada''),
     (''NH'', ''New Hampshire''), (''NJ'', ''New Jersey''), (''NM'', ''New Mexico''), (''NY'', ''New York''),
     (''NC'', ''North Carolina''), (''ND'', ''North Dakota''), (''OH'', ''Ohio''), (''OK'', ''Oklahoma''),
     (''OR'', ''Oregon''), (''PA'', ''Pennsylvania''), (''RI'', ''Rhode Island''), (''SC'', ''South Carolina''),
     (''SD'', ''South Dakota''), (''TN'', ''Tennessee''), (''TX'', ''Texas''), (''UT'', ''Utah''),
     (''VT'', ''Vermont''), (''VA'', ''Virginia''), (''WA'', ''Washington''), (''WV'', ''West Virginia''),
     (''WI'', ''Wisconsin''), (''WY'', ''Wyoming''), (''DC'', ''Washington DC'')]"

text \<open>
  \<^verbatim>\<open>Series.map(dict)\<close>: a value that is not a key of the dictionary becomes NaN, and
  so does NaN. \<^verbatim>\<open>Series.fillna(other)\<close>: a NaN cell takes the cell of \<open>other\<close> in the
  same row.
\<close>

definition series_map :: "(string \<times> string) list \<Rightarrow> string option \<Rightarrow> string option" where
  "series_map d v = (case v of None \<Rightarrow> None | Some s \<Rightarrow> map_of d s)"

definition fillna :: "'a option \<Rightarrow> 'a option \<Rightarrow> 'a option" where
  "fillna v other = (case v of None \<Rightarrow> other | Some x \<Rightarrow> Some x)"

text \<open>The argument is the table as \<^verbatim>\<open>pd.read_csv\<close> returns it.\<close>

definition load_data :: "dataframe \<Rightarrow> dataframe" where
  "load_data df =
     df\<lparr>rows := map (\<lambda>r. r\<lparr>state := fillna (series_map state_mapping (state r)) (state r)\<rparr>)
                     (rows df)\<rparr>"

subsection \<open>Median and its display\<close>

primrec dropna :: "'a option list \<Rightarrow> 'a list" where
  "dropna [] = []"
| "dropna (v # vs) = (case v of None \<Rightarrow> dropna vs | Some x \<Rightarrow> x # dropna vs)"

text \<open>
  \<^verbatim>\<open>Series.median()\<close>: NaN cells are skipped; the median of no values is NaN; otherwise
  the middle value of the sorted values, or the mean of the two middle ones.
\<close>

definition median :: "real option list \<Rightarrow> real option" where
  "median col =
     (let xs = sort (dropna col); n = length xs
      in if n = 0 then None
         else if odd n then Some (xs ! (n div 2))
         else Some ((xs ! (n div 2 - 1) + xs ! (n div 2)) / 2))"

text \<open>Rounding to the nearest integer, ties to the even one.\<close>

definition rint :: "real \<Rightarrow> int" where
  "rint x =
     (let f = \<lfloor>x\<rfloor>; d = x - of_int f
      in if d < 1 / 2 then f
         else if 1 / 2 < d then f + 1
         else if even f then f else f + 1)"

fun digits :: "nat \<Rightarrow> string" where
  "digits n =
     (if n < 10 then [''0123456789'' ! n]
      else digits (n div 10) @ [''0123456789'' ! (n mod 10)])"

declare digits.simps [simp del]

text \<open>
  The format specification \<^verbatim>\<open>:.0f\<close>: NaN prints as \<^verbatim>\<open>nan\<close>, a number prints
  rounded to an integer (ties to even), with its sign when negative.
\<close>

definition format_0f :: "real option \<Rightarrow> string" where
  "format_0f v =
     (case v of
        None \<Rightarrow> ''nan''
      | Some x \<Rightarrow> (if x < 0 then ''-'' else []) @ digits (nat (rint \<bar>x\<bar>)))"

text \<open>
  \<^verbatim>\<open>app.py\<close>, lines 87-88: the text of the "Median Salary" metric, from the filtered
  view. Lines 87-88 of the comparison script are the same on the column
  \<^verbatim>\<open>avg_salary_usd\<close>.
\<close>

definition median_salary :: "dataframe \<Rightarrow> real option" where
  "median_salary fdf = median (map avg_salary_k (rows fdf))"

definition median_salary_metric :: "dataframe \<Rightarrow> string" where
  "median_salary_metric fdf = ''$'' @ format_0f (median_salary fdf) @ ''K''"

definition median_sal :: "dataframe \<Rightarrow> real option" where
  "median_sal df_usa_filtered = median (map avg_salary_usd (rows df_usa_filtered))"

definition median_sal_metric :: "dataframe \<Rightarrow> string" where
  "median_sal_metric df_usa_filtered = ''$'' @ format_0f (median_sal df_usa_filtered) @ ''K''"

text \<open>
  A sibling display of \<^verbatim>\<open>app.py\<close> (lines 306-309, "Salary by Level"): the median of
  a level is shown only when the level has rows; \<open>None\<close> is "no metric shown".
\<close>

definition level_metric :: "dataframe \<Rightarrow> string \<Rightarrow> string option" where
  "level_metric fdf level =
     (let level_data = map avg_salary_k (rows (df_select (\<lambda>r. seniority r = level) fdf))
      in if length level_data > 0 then Some (''$'' @ format_0f (median level_data) @ ''K'')
         else None)"

text \<open>
  \<^verbatim>\<open>app.py\<close>, line 66: the ends of the salary slider, which are also its default
  selection. \<^verbatim>\<open>int()\<close> truncates towards zero and raises on NaN (no salary at all):
  \<open>None\<close>.
\<close>

definition trunc :: "real \<Rightarrow> int" where
  "trunc x = (if 0 \<le> x then \<lfloor>x\<rfloor> else \<lceil>x\<rceil>)"

definition default_salary_range :: "dataframe \<Rightarrow> (int \<times> int) option" where
  "default_salary_range df =
     (let xs = dropna (map avg_salary_k (rows df))
      in if xs = [] then None
         else Some (trunc (Min (set xs)), trunc (Max (set xs))))"

subsection \<open>Skill names: \<^verbatim>\<open>col.replace('skill_', '').replace('_', ' ').title()\<close>\<close>

text \<open>
  \<^verbatim>\<open>str.startswith\<close>, \<^verbatim>\<open>str.replace\<close> (all non-overlapping occurrences, left to
  right) and \<^verbatim>\<open>str.title\<close> on ASCII text: a letter that follows a letter is put in
  lower case, any other letter in upper case.
\<close>

definition startswith :: "string \<Rightarrow> string \<Rightarrow> bool" where
  "startswith s p = (take (length p) s = p)"

function replace_str :: "string \<Rightarrow> string \<Rightarrow> string \<Rightarrow> string" where
  "replace_str old new s =
     (if old = [] then new @ concat (map (\<lambda>c. c # new) s)
      else if s = [] then []
      else if take (length old) s = old then new @ replace_str old new (drop (length old) s)
      else hd s # replace_str old new (tl s))"
  by pat_completeness auto
termination
  by (relation "measure (\<lambda>(old, new, s). length s)") (auto simp: neq_Nil_conv)

declare replace_str.simps [simp del]

definition is_lower :: "char \<Rightarrow> bool" where
  "is_lower c = (97 \<le> (of_char c :: nat) \<and> (of_char c :: nat) \<le> 122)"

definition is_upper :: "char \<Rightarrow> bool" where
  "is_upper c = (65 \<le> (of_char c :: nat) \<and> (of_char c :: nat) \<le> 90)"

definition to_upper :: "char \<Rightarrow> char" where
  "to_upper c = (if is_lower c then char_of ((of_char c :: nat) - 32) else c)"

definition to_lower :: "char \<Rightarrow> char" where
  "to_lower c = (if is_upper c then char_of ((of_char c :: nat) + 32) else c)"

fun title_from :: "bool \<Rightarrow> string \<Rightarrow> string" where
  "title_from previous_is_cased [] = []"
| "title_from previous_is_cased (c # cs) =
     (if is_lower c then (if previous_is_cased then c else to_upper c) # title_from True cs
      else if is_upper c then (if previous_is_cased then to_lower c else c) # title_from True cs
      else c # title_from False cs)"

definition title :: "string \<Rightarrow> string" where
  "title s = title_from False s"

definition skill_name :: "string \<Rightarrow> string" where
  "skill_name col = title (replace_str ''_'' '' '' (replace_str ''skill_'' [] col))"

definition skill_cols :: "dataframe \<Rightarrow> string list" where
  "skill_cols df = filter (\<lambda>col. startswith col ''skill_'') (columns df)"

text \<open>\<^verbatim>\<open>df[col].sum()\<close> on a flag column: the number of rows where the flag is true.\<close>

definition col_sum :: "dataframe \<Rightarrow> string \<Rightarrow> nat" where
  "col_sum df col = length (filter (\<lambda>r. skill r col) (rows df))"

subsection \<open>Skill table of \<^verbatim>\<open>app.py\<close> (lines 171-185)\<close>

text \<open>
  A Python dictionary keeps its keys in insertion order and a later assignment to a
  present key replaces the value in place: an association list under \<open>AList.update\<close>.
\<close>

fun skill_counts_loop :: "dataframe \<Rightarrow> string list \<Rightarrow> (string \<times> nat) list \<Rightarrow> (string \<times> nat) list" where
  "skill_counts_loop fdf [] skill_counts = skill_counts"
| "skill_counts_loop fdf (col # cols) skill_counts =
     (let name = skill_name col; count = col_sum fdf col
      in if count > 0 then skill_counts_loop fdf cols (AList.update name count skill_counts)
         else skill_counts_loop fdf cols skill_counts)"

definition skill_counts :: "dataframe \<Rightarrow> (string \<times> nat) list" where
  "skill_counts fdf = skill_counts_loop fdf (skill_cols fdf) []"

text \<open>
  \<^verbatim>\<open>sorted(..., key=lambda x: x[1], reverse=True)[:15]\<close>: a stable sort on the
  negated value, then the first 15.
\<close>

definition top_skills :: "dataframe \<Rightarrow> (string \<times> nat) list" where
  "top_skills fdf = take 15 (sort_key (\<lambda>x. - int (snd x)) (skill_counts fdf))"

text \<open>\<^verbatim>\<open>Series.round(1)\<close>: to one decimal, ties to even.\<close>

definition round1 :: "real \<Rightarrow> real" where
  "round1 x = of_int (rint (x * 10)) / 10"

text \<open>
  \<^verbatim>\<open>(skills_df['Count'] / len(filtered_df) * 100).round(1)\<close>: the division of a
  series by zero raises nothing and gives a non-finite value, here \<open>None\<close>.
\<close>

definition percentage :: "nat \<Rightarrow> nat \<Rightarrow> real option" where
  "percentage count n =
     (if n = 0 then None else Some (round1 (real count / real n * 100)))"

text \<open>The rows of \<^verbatim>\<open>skills_df\<close>: Skill, Count, Percentage.\<close>

definition skills_df :: "dataframe \<Rightarrow> (string \<times> nat \<times> real option) list" where
  "skills_df fdf =
     map (\<lambda>(name, count). (name, count, percentage count (len fdf))) (top_skills fdf)"

subsection \<open>Skills comparison of the comparison script (lines 266-300)\<close>

text \<open>
  \<^verbatim>\<open>list(set(a) & set(b))\<close> and the iteration over a set have no specified order: the
  order is an argument, constrained to enumerate the set once.
\<close>

definition enumerates :: "'a list \<Rightarrow> 'a list \<Rightarrow> bool" where
  "enumerates xs ys = (distinct xs \<and> list_all (\<lambda>x. x \<in> set ys) xs \<and> list_all (\<lambda>y. y \<in> set xs) ys)"

definition common_of :: "dataframe \<Rightarrow> dataframe \<Rightarrow> string list" where
  "common_of df_usa df_india =
     filter (\<lambda>col. col \<in> set (skill_cols df_india)) (skill_cols df_usa)"

text \<open>Lines 283-284: the prevalence of a flag column in a filtered view, in percent.\<close>

definition pct :: "dataframe \<Rightarrow> string \<Rightarrow> real" where
  "pct fdf col =
     (if len fdf > 0 then real (col_sum fdf col) / real (len fdf) * 100 else 0)"

fun skills_loop :: "dataframe \<Rightarrow> dataframe \<Rightarrow> string list
    \<Rightarrow> (string \<times> real) list \<times> (string \<times> real) list
    \<Rightarrow> (string \<times> real) list \<times> (string \<times> real) list" where
  "skills_loop df_usa_filtered df_india_filtered [] acc = acc"
| "skills_loop df_usa_filtered df_india_filtered (col # cols) (usa_skills, india_skills) =
     (let name = skill_name col;
          usa_pct = pct df_usa_filtered col;
          india_pct = pct df_india_filtered col
      in if usa_pct > 5 \<or> india_pct > 5
         then skills_loop df_usa_filtered df_india_filtered cols
                (AList.update name usa_pct usa_skills, AList.update name india_pct india_skills)
         else skills_loop df_usa_filtered df_india_filtered cols (usa_skills, india_skills))"

definition usa_skills :: "dataframe \<Rightarrow> dataframe \<Rightarrow> string list \<Rightarrow> (string \<times> real) list" where
  "usa_skills u i common_skill_cols = fst (skills_loop u i common_skill_cols ([], []))"

definition india_skills :: "dataframe \<Rightarrow> dataframe \<Rightarrow> string list \<Rightarrow> (string \<times> real) list" where
  "india_skills u i common_skill_cols = snd (skills_loop u i common_skill_cols ([], []))"

text \<open>\<^verbatim>\<open>d.get(k, 0)\<close>.\<close>

definition get0 :: "(string \<times> real) list \<Rightarrow> string \<Rightarrow> real" where
  "get0 d k = (case map_of d k of None \<Rightarrow> 0 | Some v \<Rightarrow> v)"

text \<open>
  Line 291: \<open>keys\<close> is the order in which the set of keys of the two dictionaries is
  iterated.
\<close>

definition combined_skills :: "(string \<times> real) list \<Rightarrow> (string \<times> real) list \<Rightarrow> string list \<Rightarrow> (string \<times> real) list" where
  "combined_skills us ins keys = map (\<lambda>k. (k, get0 us k + get0 ins k)) keys"

definition top_skill_names :: "(string \<times> real) list \<Rightarrow> (string \<times> real) list \<Rightarrow> string list \<Rightarrow> string list" where
  "top_skill_names us ins keys =
     map fst (take 15 (sort_key (\<lambda>x. - snd x) (combined_skills us ins keys)))"

text \<open>The rows of \<^verbatim>\<open>skills_comparison\<close>: Skill, USA, India.\<close>

definition skills_comparison :: "dataframe \<Rightarrow> dataframe \<Rightarrow> string list \<Rightarrow> string list \<Rightarrow> (string \<times> real \<times> real) list" where
  "skills_comparison u i common_skill_cols keys =
     (let us = usa_skills u i common_skill_cols; ins = india_skills u i common_skill_cols
      in map (\<lambda>s. (s, get0 us s, get0 ins s)) (top_skill_names us ins keys))"

subsection \<open>Currency conversion of the comparison script (lines 115-130, 178)\<close>

text \<open>
  A Python float is an IEEE 754 double: 53 significant bits, exponents from \<open>-1022\<close>,
  results rounded to the nearest double, ties to the even one. \<open>ulp_exp x\<close> is the
  exponent of the spacing of the doubles around \<open>x\<close> (constant below \<open>2 ^ -1022\<close>, the
  subnormal range), and \<open>float_round x\<close> the double nearest to \<open>x\<close>. Overflow is not
  modelled: a magnitude of \<open>2 ^ 1024\<close> or more is infinite in Python.
\<close>

definition ulp_exp :: "real \<Rightarrow> int" where
  "ulp_exp x = max \<lfloor>log 2 \<bar>x\<bar>\<rfloor> (- 1022) - 52"

definition float_round :: "real \<Rightarrow> real" where
  "float_round x =
     (if x = 0 then 0
      else of_int (rint (x / 2 powr of_int (ulp_exp x))) * 2 powr of_int (ulp_exp x))"

text \<open>Arithmetic on a value that may be NaN gives NaN; a comparison with NaN is false.\<close>

definition gt0 :: "real option \<Rightarrow> bool" where
  "gt0 v = (case v of None \<Rightarrow> False | Some x \<Rightarrow> 0 < x)"

text \<open>
  \<^verbatim>\<open>india_sal * 1.2\<close> and \<^verbatim>\<open>india_by_cat['avg_salary_lpa'] * 1.2\<close>: the literal
  \<^verbatim>\<open>1.2\<close> is the double nearest to 1.2, and the product is rounded.
\<close>

definition usd_equiv :: "real \<Rightarrow> real" where
  "usd_equiv lpa = float_round (lpa * float_round 1.2)"

definition india_sal_usd :: "real option \<Rightarrow> real option" where
  "india_sal_usd india_sal = map_option usd_equiv india_sal"

definition ratio :: "real option \<Rightarrow> real option \<Rightarrow> real option" where
  "ratio usa_sal india_sal =
     (if gt0 (india_sal_usd india_sal)
      then (case (usa_sal, india_sal_usd india_sal) of
              (Some u, Some i) \<Rightarrow> Some (float_round (u / i)) | _ \<Rightarrow> None)
      else Some 0)"

definition ppp_ratio :: "real option \<Rightarrow> real option \<Rightarrow> real option" where
  "ppp_ratio usa_sal india_sal =
     (if gt0 (ratio usa_sal india_sal)
      then map_option (\<lambda>r. float_round (r / 3)) (ratio usa_sal india_sal)
      else Some 0)"

subsection \<open>Example tables\<close>

definition example_job :: "string \<Rightarrow> real \<Rightarrow> job" where
  "example_job sen sal =
     \<lparr>job_category = ''Data Analyst'', seniority = sen, state = Some ''California'',
      avg_salary_k = Some sal, avg_salary_usd = Some sal, avg_salary_lpa = None,
      skill = (\<lambda>c. False)\<rparr>"

definition one_junior :: dataframe where
  "one_junior =
     \<lparr>columns = [''job_category'', ''seniority'', ''state'', ''avg_salary_k'', ''avg_salary_usd''],
      rows = [example_job ''Junior'' 100]\<rparr>"

definition ten_salaries :: dataframe where
  "ten_salaries =
     \<lparr>columns = [''job_category'', ''seniority'', ''state'', ''avg_salary_k'', ''avg_salary_usd''],
      rows = [example_job ''Junior'' 50, example_job ''Junior'' 60, example_job ''Junior'' 70,
              example_job ''Mid-Level'' 80, example_job ''Mid-Level'' 90,
              example_job ''Senior'' 100, example_job ''Senior'' 110, example_job ''Senior'' 120,
              example_job ''Mid-Level'' 130, example_job ''Senior'' 140]\<rparr>"

definition flag_job :: "bool \<Rightarrow> job" where
  "flag_job b =
     \<lparr>job_category = ''Data Analyst'', seniority = ''Junior'', state = None,
      avg_salary_k = None, avg_salary_usd = Some 100, avg_salary_lpa = Some 10,
      skill = (\<lambda>c. c = ''skill_python'' \<and> b)\<rparr>"

definition one_in_twenty :: dataframe where
  "one_in_twenty =
     \<lparr>columns = [''job_category'', ''seniority'', ''skill_python''],
      rows = flag_job True # replicate 19 (flag_job False)\<rparr>"

definition one_in_two :: dataframe where
  "one_in_two =
     \<lparr>columns = [''job_category'', ''seniority'', ''skill_python''],
      rows = [flag_job True, flag_job False]\<rparr>"

section \<open>The filter engines\<close>

lemma rows_df_select: "rows (df_select p df) = filter p (rows df)"
  by (simp add: df_select_def)

lemma columns_df_select: "columns (df_select p df) = columns df"
  by (simp add: df_select_def)

lemma eq_str_iff: "eq_str v s \<longleftrightarrow> v = Some s"
  by (cases v) (auto simp: eq_str_def)

lemma between_iff:
  "between v lo hi \<longleftrightarrow> (\<exists>x. v = Some x \<and> of_int lo \<le> x \<and> x \<le> of_int hi)"
  by (cases v) (auto simp: between_def)

lemma rows_filtered_df:
  "rows (filtered_df df rng sen st) =
     filter (\<lambda>r. between (avg_salary_k r) (fst rng) (snd rng)
                 \<and> (sen = ''All'' \<or> seniority r = sen)
                 \<and> (st = ''All'' \<or> state r = Some st)) (rows df)"
  by (auto simp: filtered_df_def Let_def rows_df_select eq_str_iff intro: filter_cong)

lemma rows_filter_data:
  "rows (filter_data df cats sen) =
     filter (\<lambda>r. job_category r \<in> set cats \<and> (sen = ''All'' \<or> seniority r = sen)) (rows df)"
  by (auto simp: filter_data_def Let_def rows_df_select intro: filter_cong)

lemma columns_filtered_df: "columns (filtered_df df rng sen st) = columns df"
  by (simp add: filtered_df_def Let_def columns_df_select)

lemma columns_filter_data: "columns (filter_data df cats sen) = columns df"
  by (simp add: filter_data_def Let_def columns_df_select)

lemma length_filter_mono:
  "(\<And>x. P x \<Longrightarrow> Q x) \<Longrightarrow> length (filter P xs) \<le> length (filter Q xs)"
  by (induction xs) auto

text \<open>
  Claim C1. Both filter engines return exactly the rows of the table, in table order,
  that satisfy every active predicate. In \<^verbatim>\<open>app.py\<close>: the salary is a number in
  \<open>[lo, hi]\<close>, both ends included; the seniority is the selected one unless the selection
  is "All"; the state is the selected one unless the selection is "All". In the
  comparison script: the category is one of the selected ones; the seniority is the
  selected one unless the selection is "All".
\<close>

theorem filter_engine_exact:
  "rows (filtered_df df (lo, hi) sen st) =
     filter (\<lambda>r. (\<exists>x. avg_salary_k r = Some x \<and> of_int lo \<le> x \<and> x \<le> of_int hi)
                 \<and> (sen = ''All'' \<or> seniority r = sen)
                 \<and> (st = ''All'' \<or> state r = Some st)) (rows df)
   \<and> rows (filter_data df cats sen) =
     filter (\<lambda>r. job_category r \<in> set cats \<and> (sen = ''All'' \<or> seniority r = sen)) (rows df)"
  by (simp add: rows_filtered_df rows_filter_data between_iff)

text \<open>
  Claim C3. Whatever the selections, the filtered view of either engine has no more rows
  than the source table.
\<close>

theorem filtered_view_count_le:
  "len (filtered_df df rng sen st) \<le> len df \<and> len (filter_data df cats sen) \<le> len df"
  by (simp add: len_def rows_filtered_df rows_filter_data)

text \<open>
  Claim C4. With the other selections fixed, a run with seniority restricted to one value
  followed by a run with seniority "All" ends on the row count of a run with "All"
  alone; that count is the count of the rows passing the other filters, and the
  restricted count never exceeds it. Stated for both scripts.
\<close>

theorem all_wildcard_reexpands:
  "len (last (rerun_comparison df [(cats, s), (cats, ''All'')])) = len (filter_data df cats ''All'')
   \<and> len (filter_data df cats ''All'') = length (filter (\<lambda>r. job_category r \<in> set cats) (rows df))
   \<and> len (filter_data df cats s) \<le> len (filter_data df cats ''All'')
   \<and> len (last (rerun_app df [(rng, s, st), (rng, ''All'', st)])) = len (filtered_df df rng ''All'' st)
   \<and> len (filtered_df df rng ''All'' st) =
       length (filter (\<lambda>r. between (avg_salary_k r) (fst rng) (snd rng)
                           \<and> (st = ''All'' \<or> state r = Some st)) (rows df))
   \<and> len (filtered_df df rng s st) \<le> len (filtered_df df rng ''All'' st)"
proof -
  have a: "len (filter_data df cats s) \<le> len (filter_data df cats ''All'')"
    unfolding len_def rows_filter_data by (rule length_filter_mono) simp
  have b: "len (filtered_df df rng s st) \<le> len (filtered_df df rng ''All'' st)"
    unfolding len_def rows_filtered_df by (rule length_filter_mono) simp
  show ?thesis
    using a b
    by (simp add: len_def rerun_comparison_def rerun_app_def rows_filtered_df rows_filter_data)
qed

text \<open>
  Claim C8. With no category selected, \<^verbatim>\<open>filter_data\<close> returns a view with no rows,
  for every table and every seniority selection.
\<close>

theorem empty_category_selection:
  "rows (filter_data df [] sen) = [] \<and> len (filter_data df [] sen) = 0"
  by (simp add: len_def rows_filter_data)


section \<open>The data loader\<close>

lemma load_data_row:
  "fillna (series_map state_mapping v) v =
     (case v of None \<Rightarrow> None
      | Some s \<Rightarrow> (case map_of state_mapping s of None \<Rightarrow> Some s | Some full \<Rightarrow> Some full))"
  by (simp add: fillna_def series_map_def split: option.splits)

lemma distinct_state_keys: "distinct (map fst state_mapping)"
  unfolding state_mapping_def by simp

lemma length_state_mapping: "length state_mapping = 51"
  unfolding state_mapping_def by simp

lemma two_letter_state_keys: "list_all (\<lambda>k. length k = 2) (map fst state_mapping)"
  unfolding state_mapping_def by simp

text \<open>
  Claim C10. After \<^verbatim>\<open>load_data\<close>, the state of every row is the full name the
  mapping gives when the original value is one of its keys, and the original value
  otherwise (a missing value stays missing); no row is dropped and no other cell
  changes. The mapping has 51 distinct keys of two letters each.
\<close>

theorem load_data_state:
  "rows (load_data df) =
     map (\<lambda>r. r\<lparr>state :=
                 (case state r of None \<Rightarrow> None
                  | Some s \<Rightarrow> (case map_of state_mapping s of
                                 None \<Rightarrow> Some s | Some full \<Rightarrow> Some full))\<rparr>) (rows df)
   \<and> columns (load_data df) = columns df
   \<and> len (load_data df) = len df
   \<and> length state_mapping = 51
   \<and> distinct (map fst state_mapping)
   \<and> list_all (\<lambda>k. length k = 2) (map fst state_mapping)"
  by (simp add: load_data_def load_data_row len_def distinct_state_keys length_state_mapping
      two_letter_state_keys)

section \<open>The median and its display\<close>

lemma median_salary_metric_empty:
  "rows fdf = [] \<Longrightarrow> median_salary_metric fdf = ''$nanK''"
  by (simp add: median_salary_metric_def median_salary_def median_def format_0f_def)

lemma median_sal_metric_empty:
  "rows fdf = [] \<Longrightarrow> median_sal_metric fdf = ''$nanK''"
  by (simp add: median_sal_metric_def median_sal_def median_def format_0f_def)

text \<open>
  Claim C2 says that the median of an empty view is shown as "not available". The scripts
  format the NaN they get: on a table of one Junior row, the selection "Senior" leaves
  no row, and the "Median Salary" metric of both scripts reads \<^verbatim>\<open>$nanK\<close>. The
  "Salary by Level" display of \<^verbatim>\<open>app.py\<close> does guard the same case and shows
  nothing.
\<close>

theorem empty_view_median_displays_nan:
  "rows (filtered_df one_junior (100, 100) ''Senior'' ''All'') = []
   \<and> median_salary (filtered_df one_junior (100, 100) ''Senior'' ''All'') = None
   \<and> median_salary_metric (filtered_df one_junior (100, 100) ''Senior'' ''All'') = ''$nanK''
   \<and> rows (filter_data one_junior [''Data Analyst''] ''Senior'') = []
   \<and> median_sal_metric (filter_data one_junior [''Data Analyst''] ''Senior'') = ''$nanK''
   \<and> level_metric (filtered_df one_junior (100, 100) ''Senior'' ''All'') ''Senior'' = None"
  by (simp add: rows_filtered_df rows_filter_data one_junior_def example_job_def
      median_salary_metric_empty median_sal_metric_empty median_salary_def median_def
      level_metric_def rows_df_select)

text \<open>
  Claim C9. On a table of ten rows with the salaries 50, 60, ..., 140 in which exactly
  the rows with 100, 110, 120 and 140 are "Senior", the slider spans 50 to 140, the
  selection "Senior" keeps those four rows, their median is 115 and the metric reads
  \<^verbatim>\<open>$115K\<close>.
\<close>

theorem senior_median_example:
  assumes sal: "map avg_salary_k (rows df) = map Some [50, 60, 70, 80, 90, 100, 110, 120, 130, 140]"
      and sen: "map (\<lambda>r. seniority r = ''Senior'') (rows df) =
                 [False, False, False, False, False, True, True, True, False, True]"
  shows "default_salary_range df = Some (50, 140)
       \<and> map avg_salary_k (rows (filtered_df df (50, 140) ''Senior'' ''All'')) =
            [Some 100, Some 110, Some 120, Some 140]
       \<and> median_salary (filtered_df df (50, 140) ''Senior'' ''All'') = Some 115
       \<and> median_salary_metric (filtered_df df (50, 140) ''Senior'' ''All'') = ''$115K''"
proof -
  from sal obtain r0 r1 r2 r3 r4 r5 r6 r7 r8 r9 where
    df: "rows df = [r0, r1, r2, r3, r4, r5, r6, r7, r8, r9]"
    by (auto simp: map_eq_Cons_conv)
  have range: "default_salary_range df = Some (50, 140)"
    using sal by (simp add: df default_salary_range_def trunc_def)
  have view: "map avg_salary_k (rows (filtered_df df (50, 140) ''Senior'' ''All'')) =
            [Some 100, Some 110, Some 120, Some 140]"
    using sal sen by (simp add: df rows_filtered_df between_def)
  have med: "median_salary (filtered_df df (50, 140) ''Senior'' ''All'') = Some 115"
    unfolding median_salary_def view by (simp add: median_def)
  have "digits 115 = ''115''" by code_simp
  then have "median_salary_metric (filtered_df df (50, 140) ''Senior'' ''All'') = ''$115K''"
    unfolding median_salary_metric_def med by (simp add: format_0f_def rint_def)
  with range view med show ?thesis by simp
qed

theorem senior_median_example_witness:
  "map avg_salary_k (rows ten_salaries) = map Some [50, 60, 70, 80, 90, 100, 110, 120, 130, 140]
   \<and> map (\<lambda>r. seniority r = ''Senior'') (rows ten_salaries) =
        [False, False, False, False, False, True, True, True, False, True]
   \<and> median_salary (filtered_df ten_salaries (50, 140) ''Senior'' ''All'') = Some 115
   \<and> median_salary_metric (filtered_df ten_salaries (50, 140) ''Senior'' ''All'') = ''$115K''"
proof -
  have a: "map avg_salary_k (rows ten_salaries) =
      map Some [50, 60, 70, 80, 90, 100, 110, 120, 130, 140]"
    by (simp add: ten_salaries_def example_job_def)
  have b: "map (\<lambda>r. seniority r = ''Senior'') (rows ten_salaries) =
      [False, False, False, False, False, True, True, True, False, True]"
    by (simp add: ten_salaries_def example_job_def)
  show ?thesis using a b senior_median_example [OF a b] by simp
qed

section \<open>Skill prevalence\<close>

lemma col_sum_le: "col_sum df col \<le> len df"
  by (simp add: col_sum_def len_def)

lemma set_update_subset: "set (AList.update k v al) \<subseteq> insert (k, v) (set al)"
  by (induction al) auto

lemma skill_counts_loop_bounds:
  "list_all (\<lambda>(name, count). 0 < count \<and> count \<le> len fdf) acc \<Longrightarrow>
   list_all (\<lambda>(name, count). 0 < count \<and> count \<le> len fdf) (skill_counts_loop fdf cols acc)"
proof (induction cols arbitrary: acc)
  case Nil
  then show ?case by simp
next
  case (Cons col cols)
  have "list_all (\<lambda>(name, count). 0 < count \<and> count \<le> len fdf)
          (AList.update (skill_name col) (col_sum fdf col) acc)" if "0 < col_sum fdf col"
    using that Cons.prems set_update_subset [of "skill_name col" "col_sum fdf col" acc]
    by (auto simp: list_all_iff col_sum_le)
  with Cons show ?case by (simp add: Let_def)
qed

lemma top_skills_bounds:
  "list_all (\<lambda>(name, count). 0 < count \<and> count \<le> len fdf) (top_skills fdf)"
proof -
  have "list_all (\<lambda>(name, count). 0 < count \<and> count \<le> len fdf) (skill_counts fdf)"
    unfolding skill_counts_def by (rule skill_counts_loop_bounds) simp
  moreover have "set (top_skills fdf) \<subseteq> set (skill_counts fdf)"
    unfolding top_skills_def using set_take_subset [of 15 "sort_key (\<lambda>x. - int (snd x)) (skill_counts fdf)"]
    by simp
  ultimately show ?thesis
    unfolding list_all_iff by blast
qed

lemma floor_le_rint: "\<lfloor>x\<rfloor> \<le> rint x"
  by (simp add: rint_def Let_def)

lemma rint_le_floor_Suc: "rint x \<le> \<lfloor>x\<rfloor> + 1"
  by (simp add: rint_def Let_def)

lemma rint_of_int: "rint (of_int a) = a"
  by (simp add: rint_def)

lemma rint_lower:
  assumes "of_int a \<le> x" shows "a \<le> rint x"
proof -
  from assms have "a \<le> \<lfloor>x\<rfloor>" by (simp add: le_floor_iff)
  with floor_le_rint [of x] show ?thesis by linarith
qed

lemma rint_upper:
  assumes "x \<le> of_int b" shows "rint x \<le> b"
proof (cases "x = of_int b")
  case True
  then show ?thesis by (simp add: rint_of_int)
next
  case False
  with assms have "x < of_int b" by simp
  then have "\<lfloor>x\<rfloor> < b" by (simp add: floor_less_iff)
  with rint_le_floor_Suc [of x] show ?thesis by linarith
qed

lemma rint_mono:
  assumes "x \<le> y" shows "rint x \<le> rint y"
proof (cases "\<lfloor>x\<rfloor> = \<lfloor>y\<rfloor>")
  case True
  with assms show ?thesis by (auto simp: rint_def Let_def)
next
  case False
  with assms have "\<lfloor>x\<rfloor> < \<lfloor>y\<rfloor>" using floor_mono [OF assms] by linarith
  with rint_le_floor_Suc [of x] floor_le_rint [of y] show ?thesis by linarith
qed

lemma rint_minus: "rint (- x) = - rint x"
proof (cases "x = of_int \<lfloor>x\<rfloor>")
  case True
  then obtain k where "x = of_int k" ..
  then show ?thesis using rint_of_int [of "- k"] by (simp add: rint_of_int)
next
  case False
  then have c: "\<lceil>x\<rceil> = \<lfloor>x\<rfloor> + 1" by (metis ceiling_altdef)
  have f: "\<lfloor>- x\<rfloor> = - \<lfloor>x\<rfloor> - 1" using c by (simp add: ceiling_def)
  show ?thesis
    unfolding rint_def Let_def f by (auto simp: field_simps)
qed

lemma round1_bounds: "0 \<le> x \<Longrightarrow> x \<le> 100 \<Longrightarrow> 0 \<le> round1 x \<and> round1 x \<le> 100"
  using rint_lower [of 0 "x * 10"] rint_upper [of "x * 10" 1000]
  by (simp add: round1_def) 

lemma ratio_bounds:
  "c \<le> n \<Longrightarrow> 0 < n \<Longrightarrow> 0 \<le> real c / real n * 100 \<and> real c / real n * 100 \<le> 100"
  by (simp add: divide_le_eq)

lemma percentage_bounds:
  "0 < c \<Longrightarrow> c \<le> n \<Longrightarrow> \<exists>v. percentage c n = Some v \<and> 0 \<le> v \<and> v \<le> 100"
  using round1_bounds [of "real c / real n * 100"] ratio_bounds [of c n]
  by (simp add: percentage_def)

lemma pct_bounds: "0 \<le> pct fdf col \<and> pct fdf col \<le> 100"
  using ratio_bounds [of "col_sum fdf col" "len fdf"] col_sum_le [of fdf col]
  by (simp add: pct_def)

text \<open>
  Claim C7. Every percentage in the skill table of \<^verbatim>\<open>app.py\<close> is a finite number
  between 0 and 100 (a skill enters the table only with a positive count, so the view it
  is divided by is not empty), and so is the prevalence the comparison script computes
  for any flag column of any view.
\<close>

theorem skill_percentage_range:
  "list_all (\<lambda>(name, count, p). \<exists>v. p = Some v \<and> 0 \<le> v \<and> v \<le> 100) (skills_df fdf)
   \<and> 0 \<le> pct fdf col \<and> pct fdf col \<le> 100"
proof -
  have "list_all (\<lambda>(name, count, p). \<exists>v. p = Some v \<and> 0 \<le> v \<and> v \<le> 100) (skills_df fdf)"
    using top_skills_bounds [of fdf]
    by (auto simp: skills_df_def list_all_iff dest!: bspec intro: percentage_bounds)
  with pct_bounds show ?thesis by simp
qed

section \<open>The skills comparison\<close>

lemma skills_loop_keys:
  "fst ` set (fst (skills_loop u i cols (us, ins))) =
     fst ` set us \<union> skill_name ` {col \<in> set cols. 5 < pct u col \<or> 5 < pct i col}
   \<and> fst ` set (snd (skills_loop u i cols (us, ins))) =
     fst ` set ins \<union> skill_name ` {col \<in> set cols. 5 < pct u col \<or> 5 < pct i col}"
proof (induction cols arbitrary: us ins)
  case Nil
  then show ?case by simp
next
  case (Cons col cols)
  show ?case
  proof (cases "5 < pct u col \<or> 5 < pct i col")
    case True
    then have "skills_loop u i (col # cols) (us, ins) =
       skills_loop u i cols (AList.update (skill_name col) (pct u col) us,
                             AList.update (skill_name col) (pct i col) ins)"
      by (simp add: Let_def)
    moreover have "{c \<in> set (col # cols). 5 < pct u c \<or> 5 < pct i c} =
        insert col {c \<in> set cols. 5 < pct u c \<or> 5 < pct i c}"
      using True by auto
    ultimately show ?thesis
      by (simp add: Cons.IH dom_update)
  next
    case False
    then have "skills_loop u i (col # cols) (us, ins) = skills_loop u i cols (us, ins)"
      by (simp add: Let_def)
    moreover have "{c \<in> set (col # cols). 5 < pct u c \<or> 5 < pct i c} =
        {c \<in> set cols. 5 < pct u c \<or> 5 < pct i c}"
      using False by auto
    ultimately show ?thesis
      by (simp add: Cons.IH)
  qed
qed

lemma usa_skills_keys:
  "set (map fst (usa_skills u i cols)) = skill_name ` {col \<in> set cols. 5 < pct u col \<or> 5 < pct i col}"
  using skills_loop_keys [of u i cols "[]" "[]"] by (simp add: usa_skills_def)

lemma india_skills_keys:
  "set (map fst (india_skills u i cols)) = skill_name ` {col \<in> set cols. 5 < pct u col \<or> 5 < pct i col}"
  using skills_loop_keys [of u i cols "[]" "[]"] by (simp add: india_skills_def)

lemma enumerates_iff: "enumerates xs ys \<longleftrightarrow> distinct xs \<and> set xs = set ys"
  by (auto simp: enumerates_def list_all_iff)

lemma map_fst_combined: "map fst (combined_skills us ins keys) = keys"
  by (simp add: combined_skills_def comp_def)

lemma set_top_skill_names_subset: "set (top_skill_names us ins keys) \<subseteq> set keys"
proof -
  have "set (map fst (take 15 (sort_key (\<lambda>x. - snd x) (combined_skills us ins keys))))
      \<subseteq> set (map fst (sort_key (\<lambda>x. - snd x) (combined_skills us ins keys)))"
    by (metis set_take_subset take_map)
  also have "\<dots> = set (map fst (combined_skills us ins keys))" by simp
  finally show ?thesis by (simp add: top_skill_names_def map_fst_combined)
qed

lemma set_top_skill_names_all:
  "length keys \<le> 15 \<Longrightarrow> set (top_skill_names us ins keys) = set keys"
proof -
  assume "length keys \<le> 15"
  then have "take 15 (sort_key (\<lambda>x. - snd x) (combined_skills us ins keys)) =
     sort_key (\<lambda>x. - snd x) (combined_skills us ins keys)"
    by (simp add: combined_skills_def)
  then have "set (top_skill_names us ins keys) = set (map fst (combined_skills us ins keys))"
    by (simp add: top_skill_names_def)
  then show ?thesis by (simp add: map_fst_combined)
qed

lemma length_top_skill_names: "length (top_skill_names us ins keys) = min (length keys) 15"
  by (simp add: top_skill_names_def combined_skills_def)

lemma map_fst_skills_comparison:
  "map fst (skills_comparison u i cols keys) =
     top_skill_names (usa_skills u i cols) (india_skills u i cols) keys"
  by (simp add: skills_comparison_def Let_def comp_def)

lemma pct_one_in_twenty: "pct (filter_data one_in_twenty [''Data Analyst''] ''All'') ''skill_python'' = 5"
  by (simp add: pct_def len_def col_sum_def rows_filter_data one_in_twenty_def flag_job_def)

lemma common_one_in_twenty: "common_of one_in_twenty one_in_twenty = [''skill_python'']"
  by (simp add: common_of_def skill_cols_def one_in_twenty_def startswith_def)

text \<open>
  Claim C5, as amended. The threshold is applied to each country on its own: a skill is
  kept exactly when the prevalence of one of its columns is strictly above 5 percent in
  the USA view or in the India view. The comparison view shows kept skills only: all of
  them when at most 15 are kept, and 15 of them otherwise.
\<close>

theorem skills_threshold_per_country:
  assumes "enumerates keys (map fst (usa_skills u i cols) @ map fst (india_skills u i cols))"
  shows "set keys = skill_name ` {col \<in> set cols. 5 < pct u col \<or> 5 < pct i col}
       \<and> set (map fst (skills_comparison u i cols keys)) \<subseteq> set keys
       \<and> length (skills_comparison u i cols keys) = min (length keys) 15
       \<and> (if length keys \<le> 15 then set (map fst (skills_comparison u i cols keys)) = set keys
          else length (skills_comparison u i cols keys) = 15)"
proof -
  from assms have "set keys = skill_name ` {col \<in> set cols. 5 < pct u col \<or> 5 < pct i col}"
    using usa_skills_keys [of u i cols] india_skills_keys [of u i cols]
    by (simp add: enumerates_iff)
  moreover have "length (skills_comparison u i cols keys) = min (length keys) 15"
    using length_top_skill_names [of "usa_skills u i cols" "india_skills u i cols" keys]
    by (simp add: skills_comparison_def Let_def)
  ultimately show ?thesis
    using set_top_skill_names_subset [of "usa_skills u i cols" "india_skills u i cols" keys]
      set_top_skill_names_all [of keys "usa_skills u i cols" "india_skills u i cols"]
    by (simp add: map_fst_skills_comparison del: set_map)
qed

theorem skills_threshold_per_country_witness:
  "enumerates [''Python'']
     (map fst (usa_skills one_in_two one_in_twenty [''skill_python''])
      @ map fst (india_skills one_in_two one_in_twenty [''skill_python'']))
   \<and> pct one_in_two ''skill_python'' = 50
   \<and> pct one_in_twenty ''skill_python'' = 5
   \<and> set (map fst (skills_comparison one_in_two one_in_twenty [''skill_python''] [''Python'']))
       = {''Python''}"
proof -
  have n: "skill_name ''skill_python'' = ''Python''" by code_simp
  have u: "pct one_in_two ''skill_python'' = 50"
    by (simp add: pct_def len_def col_sum_def one_in_two_def flag_job_def)
  have i: "pct one_in_twenty ''skill_python'' = 5"
    by (simp add: pct_def len_def col_sum_def one_in_twenty_def flag_job_def)
  have e: "enumerates [''Python'']
     (map fst (usa_skills one_in_two one_in_twenty [''skill_python''])
      @ map fst (india_skills one_in_two one_in_twenty [''skill_python'']))"
    by (simp add: usa_skills_def india_skills_def n u i enumerates_def Let_def)
  show ?thesis
    using e u i skills_threshold_per_country [OF e] by simp
qed

lemma pooled_one_in_twenty:
  "real (col_sum (filter_data one_in_twenty [''Data Analyst''] ''All'') ''skill_python''
         + col_sum (filter_data one_in_twenty [''Data Analyst''] ''All'') ''skill_python'')
     / real (len (filter_data one_in_twenty [''Data Analyst''] ''All'')
             + len (filter_data one_in_twenty [''Data Analyst''] ''All'')) * 100 = 5"
  by (simp add: len_def col_sum_def rows_filter_data one_in_twenty_def flag_job_def)

text \<open>
  Claim C5, as stated, fails: with one row in twenty flagged in each country, the
  prevalence is 5 percent in each view and 10 percent combined (5 percent of the pooled
  rows), which is not below 5 percent, and the skill is left out of the comparison.
\<close>

theorem combined_threshold_counterexample:
  "pct (filter_data one_in_twenty [''Data Analyst''] ''All'') ''skill_python''
     + pct (filter_data one_in_twenty [''Data Analyst''] ''All'') ''skill_python'' = 10
   \<and> real (col_sum (filter_data one_in_twenty [''Data Analyst''] ''All'') ''skill_python''
           + col_sum (filter_data one_in_twenty [''Data Analyst''] ''All'') ''skill_python'')
       / real (len (filter_data one_in_twenty [''Data Analyst''] ''All'')
               + len (filter_data one_in_twenty [''Data Analyst''] ''All'')) * 100 = 5
   \<and> common_of one_in_twenty one_in_twenty = [''skill_python'']
   \<and> usa_skills (filter_data one_in_twenty [''Data Analyst''] ''All'')
        (filter_data one_in_twenty [''Data Analyst''] ''All'') [''skill_python''] = []
   \<and> india_skills (filter_data one_in_twenty [''Data Analyst''] ''All'')
        (filter_data one_in_twenty [''Data Analyst''] ''All'') [''skill_python''] = []
   \<and> skills_comparison (filter_data one_in_twenty [''Data Analyst''] ''All'')
        (filter_data one_in_twenty [''Data Analyst''] ''All'') [''skill_python''] [] = []"
  using pooled_one_in_twenty
  by (simp add: pct_one_in_twenty common_one_in_twenty usa_skills_def india_skills_def
      skills_comparison_def top_skill_names_def combined_skills_def Let_def)

section \<open>Currency conversion\<close>

subsection \<open>Rounding to a double is monotone\<close>

lemma floor_log_bounds:
  assumes "0 < x"
  shows "2 powr of_int \<lfloor>log 2 x\<rfloor> \<le> x" and "x < 2 powr of_int (\<lfloor>log 2 x\<rfloor> + 1)"
  using floor_log_eq_powr_iff [of x 2 "\<lfloor>log 2 x\<rfloor>"] assms by simp_all

lemma floor_log_mono: "0 < x \<Longrightarrow> x \<le> y \<Longrightarrow> \<lfloor>log 2 x\<rfloor> \<le> \<lfloor>log 2 y\<rfloor>"
  by (simp add: floor_mono)

lemma ulp_exp_mono: "0 < x \<Longrightarrow> x \<le> y \<Longrightarrow> ulp_exp x \<le> ulp_exp y"
  using floor_log_mono [of x y] by (simp add: ulp_exp_def)

lemma float_round_pos:
  "0 < x \<Longrightarrow> float_round x = of_int (rint (x / 2 powr of_int (ulp_exp x))) * 2 powr of_int (ulp_exp x)"
  by (simp add: float_round_def)

text \<open>Below the next power of two, the rounded value is at most that power.\<close>

lemma float_round_le_binade:
  assumes "0 < x"
  shows "float_round x \<le> 2 powr of_int (ulp_exp x + 53)"
proof -
  let ?e = "ulp_exp x"
  have "\<lfloor>log 2 x\<rfloor> + 1 \<le> ?e + 53" using assms by (simp add: ulp_exp_def)
  then have "2 powr of_int (\<lfloor>log 2 x\<rfloor> + 1) \<le> (2::real) powr of_int (?e + 53)"
    by simp
  with floor_log_bounds(2) [OF assms] have "x \<le> 2 powr of_int (?e + 53)" by linarith
  then have "x / 2 powr of_int ?e \<le> 2 powr of_int (?e + 53) / 2 powr of_int ?e"
    by (simp add: divide_right_mono)
  also have "\<dots> = 2 powr 53" by (simp add: powr_diff [symmetric])
  also have "\<dots> = of_int (2 ^ 53)" by simp
  finally have "rint (x / 2 powr of_int ?e) \<le> 2 ^ 53" by (rule rint_upper)
  then have "of_int (rint (x / 2 powr of_int ?e)) \<le> (2::real) ^ 53"
    by (metis of_int_le_iff of_int_numeral of_int_power)
  then have "of_int (rint (x / 2 powr of_int ?e)) * 2 powr of_int ?e \<le> (2::real) ^ 53 * 2 powr of_int ?e"
    by (intro mult_right_mono) simp_all
  also have "\<dots> = 2 powr of_int (?e + 53)" by (simp add: powr_add)
  finally have "of_int (rint (x / 2 powr of_int ?e)) * 2 powr of_int ?e \<le> (2::real) powr of_int (?e + 53)" .
  moreover have "float_round x = of_int (rint (x / 2 powr of_int ?e)) * 2 powr of_int ?e"
    using assms by (rule float_round_pos)
  ultimately show ?thesis by simp
qed

text \<open>At or above a power of two in the normal range, the rounded value is at least it.\<close>

lemma float_round_ge_binade:
  assumes "0 < x" and "- 1022 < \<lfloor>log 2 x\<rfloor>"
  shows "2 powr of_int (ulp_exp x + 52) \<le> float_round x"
proof -
  let ?e = "ulp_exp x"
  have e: "?e + 52 = \<lfloor>log 2 x\<rfloor>" using assms by (simp add: ulp_exp_def)
  with floor_log_bounds(1) [OF assms(1)] have "2 powr of_int (?e + 52) \<le> x" by simp
  then have "2 powr of_int (?e + 52) / 2 powr of_int ?e \<le> x / 2 powr of_int ?e"
    by (simp add: divide_right_mono)
  moreover have "2 powr of_int (?e + 52) / 2 powr of_int ?e = (2::real) powr 52"
    by (simp add: powr_diff [symmetric])
  moreover have "(2::real) powr 52 = of_int (2 ^ 52)" by simp
  ultimately have "of_int (2 ^ 52) \<le> x / 2 powr of_int ?e" by simp
  then have "2 ^ 52 \<le> rint (x / 2 powr of_int ?e)" by (rule rint_lower)
  then have r: "(2::real) ^ 52 \<le> of_int (rint (x / 2 powr of_int ?e))"
    by (metis of_int_le_iff of_int_numeral of_int_power)
  have "(2::real) powr of_int (?e + 52) = 2 ^ 52 * 2 powr of_int ?e"
    by (simp add: powr_add)
  also have "\<dots> \<le> of_int (rint (x / 2 powr of_int ?e)) * 2 powr of_int ?e"
    using r by (intro mult_right_mono) simp_all
  also have "\<dots> = float_round x" using assms by (simp add: float_round_pos)
  finally show ?thesis .
qed

lemma float_round_mono_pos:
  assumes "0 < x" and "x \<le> y"
  shows "float_round x \<le> float_round y"
proof (cases "ulp_exp x = ulp_exp y")
  case True
  from assms have "x / 2 powr of_int (ulp_exp y) \<le> y / 2 powr of_int (ulp_exp y)"
    by (simp add: divide_right_mono)
  then have "rint (x / 2 powr of_int (ulp_exp y)) \<le> rint (y / 2 powr of_int (ulp_exp y))"
    by (rule rint_mono)
  then have "of_int (rint (x / 2 powr of_int (ulp_exp y))) * (2::real) powr of_int (ulp_exp y)
      \<le> of_int (rint (y / 2 powr of_int (ulp_exp y))) * 2 powr of_int (ulp_exp y)"
    by (intro mult_right_mono) simp_all
  moreover have "0 < y" using assms by simp
  ultimately show ?thesis using assms True by (simp add: float_round_pos)
next
  case False
  with ulp_exp_mono [OF assms] have lt: "ulp_exp x < ulp_exp y" by simp
  have y: "0 < y" using assms by simp
  have "\<bar>y\<bar> = y" "\<bar>x\<bar> = x" using assms by simp_all
  then have "- 1022 < \<lfloor>log 2 y\<rfloor>" using lt unfolding ulp_exp_def by linarith
  from float_round_ge_binade [OF y this] have "2 powr of_int (ulp_exp y + 52) \<le> float_round y" .
  moreover have "(2::real) powr of_int (ulp_exp x + 53) \<le> 2 powr of_int (ulp_exp y + 52)"
    using lt by simp
  ultimately show ?thesis using float_round_le_binade [OF assms(1)] by linarith
qed

lemma ulp_exp_minus: "ulp_exp (- x) = ulp_exp x"
  by (simp add: ulp_exp_def)

lemma float_round_minus: "float_round (- x) = - float_round x"
  by (simp add: float_round_def ulp_exp_minus rint_minus)

lemma float_round_nonneg: "0 \<le> x \<Longrightarrow> 0 \<le> float_round x"
  using rint_lower [of 0 "x / 2 powr of_int (ulp_exp x)"] by (simp add: float_round_def)

lemma float_round_mono:
  assumes "x \<le> y" shows "float_round x \<le> float_round y"
proof -
  consider "0 < x" | "y < 0" | "x \<le> 0" "0 \<le> y" by linarith
  then show ?thesis
  proof cases
    case 1
    then show ?thesis using assms by (rule float_round_mono_pos)
  next
    case 2
    then have "float_round (- y) \<le> float_round (- x)"
      using assms by (intro float_round_mono_pos) simp_all
    then show ?thesis by (simp add: float_round_minus)
  next
    case 3
    have "0 \<le> float_round (- x)" using 3 by (intro float_round_nonneg) simp
    then have "float_round x \<le> 0" by (simp add: float_round_minus)
    with float_round_nonneg [OF 3(2)] show ?thesis by linarith
  qed
qed


lemma float_round_eval:
  assumes lo: "2 ^ k \<le> x" and hi: "x < 2 ^ Suc k" and k: "k \<le> 52"
  shows "float_round x = of_int (rint (x * 2 ^ (52 - k))) / 2 ^ (52 - k)"
proof -
  have pos: "0 < x" using lo by (smt (verit) zero_less_power)
  have "2 powr of_int (int k) \<le> x \<and> x < 2 powr of_int (int k + 1)"
    using lo hi by (simp add: powr_realpow powr_add)
  then have "\<lfloor>log 2 x\<rfloor> = int k"
    using floor_log_eq_powr_iff [of x 2 "int k"] pos by simp
  then have e: "ulp_exp x = - int (52 - k)"
    using pos k by (simp add: ulp_exp_def)
  have p: "2 powr of_int (ulp_exp x) = 1 / (2::real) ^ (52 - k)"
    unfolding e by (simp add: powr_minus powr_realpow inverse_eq_divide)
  show ?thesis using pos by (simp add: float_round_pos p)
qed

subsection \<open>The conversion\<close>

lemma float_round_1_2: "float_round 1.2 = 5404319552844595 / 4503599627370496"
  using float_round_eval [of 0 "1.2"] by (simp add: rint_def)

lemma usd_equiv_a: "usd_equiv (7 / 4) = 4728779608739021 / 2251799813685248"
  unfolding usd_equiv_def float_round_1_2
  using float_round_eval [of 1 "7 / 4 * (5404319552844595 / 4503599627370496)"]
  by (simp add: rint_def)

lemma usd_equiv_b: "usd_equiv (7 / 4 + 1 / 2 ^ 52) = 4728779608739021 / 2251799813685248"
  unfolding usd_equiv_def float_round_1_2
  using float_round_eval [of 1 "(7 / 4 + 1 / 2 ^ 52) * (5404319552844595 / 4503599627370496)"]
  by (simp add: rint_def)

lemma is_double_a: "float_round (7 / 4) = 7 / 4"
  using float_round_eval [of 0 "7 / 4"] by (simp add: rint_def)

lemma is_double_b: "float_round (7 / 4 + 1 / 2 ^ 52) = 7 / 4 + 1 / 2 ^ 52"
  using float_round_eval [of 0 "7 / 4 + 1 / 2 ^ 52"] by (simp add: rint_def)


lemma india_sal_usd_Some: "india_sal_usd (Some lpa) = Some (usd_equiv lpa)"
  by (simp add: india_sal_usd_def)

lemma ppp_ratio_Some:
  "ppp_ratio (Some u) (Some lpa) =
     (if 0 < usd_equiv lpa \<and> 0 < float_round (u / usd_equiv lpa)
      then Some (float_round (float_round (u / usd_equiv lpa) / 3)) else Some 0)"
  by (simp add: ppp_ratio_def ratio_def gt0_def india_sal_usd_Some)

text \<open>
  Claim C6, as amended. The USD equivalent of an India salary is the LPA value times
  the double nearest to 1.2, rounded to a double; the division by 3 for purchasing
  power is applied to the USA/India salary ratio. The conversion is non-decreasing: for
  LPA values \<open>a \<le> b\<close> of magnitude at most \<open>2 ^ 1000\<close>, the USD equivalent of \<open>a\<close> is at
  most that of \<open>b\<close>. Before rounding the product is strictly increasing.
\<close>

theorem usd_equiv_mono:
  assumes "a \<le> b" and "\<bar>a\<bar> \<le> 2 ^ 1000" and "\<bar>b\<bar> \<le> 2 ^ 1000"
  shows "usd_equiv a \<le> usd_equiv b
       \<and> usd_equiv a = float_round (a * (5404319552844595 / 4503599627370496))
       \<and> india_sal_usd (Some a) = Some (usd_equiv a)
       \<and> ppp_ratio (Some u) (Some a) =
           (if 0 < usd_equiv a \<and> 0 < float_round (u / usd_equiv a)
            then Some (float_round (float_round (u / usd_equiv a) / 3)) else Some 0)
       \<and> (a < b \<longleftrightarrow> a * float_round 1.2 < b * float_round 1.2)"
proof -
  have "a * float_round 1.2 \<le> b * float_round 1.2"
    unfolding float_round_1_2 using assms(1) by simp
  then have m: "usd_equiv a \<le> usd_equiv b"
    unfolding usd_equiv_def by (rule float_round_mono)
  have v: "usd_equiv a = float_round (a * (5404319552844595 / 4503599627370496))"
    unfolding usd_equiv_def float_round_1_2 ..
  have s: "a < b \<longleftrightarrow> a * float_round 1.2 < b * float_round 1.2"
    unfolding float_round_1_2 by simp
  from m v s india_sal_usd_Some [of a] ppp_ratio_Some [of u a] show ?thesis
    by blast
qed

theorem usd_equiv_mono_witness:
  "(10 :: real) \<le> 20 \<and> \<bar>10 :: real\<bar> \<le> 2 ^ 1000 \<and> \<bar>20 :: real\<bar> \<le> 2 ^ 1000
   \<and> usd_equiv 10 \<le> usd_equiv 20 \<and> india_sal_usd (Some 10) = Some (usd_equiv 10)"
proof -
  have h: "(10 :: real) \<le> 20" "\<bar>10 :: real\<bar> \<le> 2 ^ 1000" "\<bar>20 :: real\<bar> \<le> 2 ^ 1000"
    by simp_all
  show ?thesis using h usd_equiv_mono [OF h, of 1] by simp
qed

text \<open>
  Claim C6, as stated, fails: 1.75 and the next double above it, \<open>1.75 + 2 ^ -52\<close>, are
  two LPA values with the same USD equivalent, the double 2.1.
\<close>

theorem usd_equiv_not_strict_counterexample:
  "(7 / 4 :: real) < 7 / 4 + 1 / 2 ^ 52
   \<and> float_round (7 / 4) = 7 / 4
   \<and> float_round (7 / 4 + 1 / 2 ^ 52) = 7 / 4 + 1 / 2 ^ 52
   \<and> usd_equiv (7 / 4) = 4728779608739021 / 2251799813685248
   \<and> usd_equiv (7 / 4 + 1 / 2 ^ 52) = 4728779608739021 / 2251799813685248
   \<and> \<not> usd_equiv (7 / 4) < usd_equiv (7 / 4 + 1 / 2 ^ 52)"
  using is_double_a is_double_b usd_equiv_a usd_equiv_b by simp

end
